theory Spec2Isabelle
  imports Main "HOL-Library.Word" "HOL-Library.Multiset"
begin

section \<open>JavaScript strings\<close>

text \<open>
  The scenario file \<^verbatim>\<open>src/myscenarios/fix-build/csharp-build-fix.stest.ts\<close> scores the
  transcript \<^verbatim>\<open>fullResponse\<close>, a JavaScript string. A JavaScript string is a finite
  sequence of 16-bit code units; \<^verbatim>\<open>length\<close>, \<^verbatim>\<open>substring\<close>, \<^verbatim>\<open>includes\<close> and the regular
  expression engine (without the \<^verbatim>\<open>u\<close> flag) all work on code units. Concatenation is
  list append.
\<close>

type_synonym jsstring = "16 word list"

text \<open>A string literal of the source whose characters are all ASCII.\<close>

definition js :: "string \<Rightarrow> jsstring" where
  "js s = map of_char s"

text \<open>
  \<^verbatim>\<open>s.includes(n)\<close>: true when \<^verbatim>\<open>n\<close> occurs in \<^verbatim>\<open>s\<close> at some index, compared code unit
  by code unit (case-sensitive). The search tries every index from 0 to the length of
  \<^verbatim>\<open>s\<close>.
\<close>

fun startsWith :: "jsstring \<Rightarrow> jsstring \<Rightarrow> bool" where
  "startsWith s [] = True"
| "startsWith [] (c # cs) = False"
| "startsWith (x # xs) (c # cs) = (x = c \<and> startsWith xs cs)"

fun js_includes :: "jsstring \<Rightarrow> jsstring \<Rightarrow> bool" where
  "js_includes [] n = startsWith [] n"
| "js_includes (x # xs) n = (startsWith (x # xs) n \<or> js_includes xs n)"

text \<open>\<^verbatim>\<open>s.substring(0, n)\<close> for a non-negative integer \<^verbatim>\<open>n\<close>.\<close>

definition substring0 :: "jsstring \<Rightarrow> nat \<Rightarrow> jsstring" where
  "substring0 s n = take n s"

text \<open>
  The text a template literal inserts for a non-negative integer (its decimal digits)
  and for a boolean.
\<close>

function String_of_nat :: "nat \<Rightarrow> jsstring" where
  "String_of_nat n =
     (if n < 10 then [of_nat (48 + n)]
      else String_of_nat (n div 10) @ [of_nat (48 + n mod 10)])"
  by pat_completeness auto
termination
  by (relation "measure (\<lambda>n. n)") auto

declare String_of_nat.simps [simp del]

definition String_of_bool :: "bool \<Rightarrow> jsstring" where
  "String_of_bool b = (if b then js ''true'' else js ''false'')"

text \<open>\<^verbatim>\<open>xs.join(sep)\<close> on an array of strings.\<close>

fun join :: "jsstring list \<Rightarrow> jsstring \<Rightarrow> jsstring" where
  "join [] sep = []"
| "join [x] sep = x"
| "join (x # y # ys) sep = x @ sep @ join (y # ys) sep"

section \<open>The behavior checks and the score\<close>

text \<open>
  The array \<^verbatim>\<open>expectedBehaviors\<close> (lines 51 to 76): five predicates on the response, in
  the order of the source.
\<close>

type_synonym behavior = "jsstring \<Rightarrow> bool"

definition expectedBehaviors :: "behavior list" where
  "expectedBehaviors =
    [ \<lambda>response. js_includes response (js ''dotnet build'')
                 \<or> js_includes response (js ''building'')
                 \<or> js_includes response (js ''compile''),
      \<lambda>response. js_includes response (js ''run_in_terminal'')
                 \<or> js_includes response (js ''terminal''),
      \<lambda>response. js_includes response (js ''error'')
                 \<and> (js_includes response (js ''CS'') \<or> js_includes response (js ''build'')),
      \<lambda>response. js_includes response (js ''replace_string_in_file'')
                 \<or> js_includes response (js ''edit'')
                 \<or> js_includes response (js ''fix''),
      \<lambda>response. js_includes response (js ''build'')
                 \<and> js_includes response (js ''again'') ]"

text \<open>
  Line 79: \<^verbatim>\<open>expectedBehaviors.filter(behavior => behavior(fullResponse))\<close>, with the
  array as a parameter.
\<close>

definition behaviorMatches :: "behavior list \<Rightarrow> jsstring \<Rightarrow> behavior list" where
  "behaviorMatches behaviors fullResponse =
     filter (\<lambda>behavior. behavior fullResponse) behaviors"

text \<open>
  Lines 123 to 126: the object the callback returns. \<^verbatim>\<open>errorMessage\<close> is \<^verbatim>\<open>undefined\<close>
  (here \<open>None\<close>) or a string.
\<close>

record verdict =
  success :: bool
  errorMessage :: "jsstring option"

definition failureMessage :: "nat \<Rightarrow> nat \<Rightarrow> jsstring" where
  "failureMessage matched expected =
     js ''Expected agent to demonstrate C# build-fix behaviors, but only ''
     @ String_of_nat matched @ js '' out of '' @ String_of_nat expected
     @ js '' behaviors were found''"

text \<open>
  The scoring of the callback (lines 79, 80 and 123 to 126) with the checklist and the
  threshold as parameters; the callback runs it on \<open>expectedBehaviors\<close> and 2.
\<close>

record evaluation =
  matchedCount :: nat
  totalCount :: nat
  result :: verdict

definition evaluate :: "jsstring \<Rightarrow> behavior list \<Rightarrow> int \<Rightarrow> evaluation" where
  "evaluate fullResponse behaviors threshold =
     (let matches = behaviorMatches behaviors fullResponse;
          success = (int (length matches) \<ge> threshold)
      in \<lparr> matchedCount = length matches,
           totalCount = length behaviors,
           result = \<lparr> success = success,
                      errorMessage = (if success then None
                                      else Some (failureMessage (length matches) (length behaviors))) \<rparr> \<rparr>)"

section \<open>Tool-call extraction\<close>

text \<open>
  Line 100: \<^verbatim>\<open>fullResponse.match(/(\w+_\w+|\w+)\(/g) || []\<close>. The pattern is built from
  single code units, the greedy repetition \<^verbatim>\<open>\w+\<close> of a character class, sequence,
  alternation and a capturing group (a global match returns whole matches only, so the
  group only brackets the alternation).
\<close>

datatype regex =
  Lit "16 word"
| PlusClass "16 word \<Rightarrow> bool"
| Seq regex regex
| Alt regex regex
| Group regex

text \<open>\<^verbatim>\<open>\w\<close> without the \<^verbatim>\<open>u\<close> and \<^verbatim>\<open>i\<close> flags: the class \<^verbatim>\<open>[A-Za-z0-9_]\<close>.\<close>

definition is_word :: "16 word \<Rightarrow> bool" where
  "is_word c = ((48 \<le> c \<and> c \<le> 57) \<or> (65 \<le> c \<and> c \<le> 90) \<or> c = 95 \<or> (97 \<le> c \<and> c \<le> 122))"

text \<open>
  The backtracking matcher: \<open>rx_rests r s\<close> lists what is left of \<open>s\<close> after each way
  \<open>r\<close> matches at the start of \<open>s\<close>, in the order in which backtracking tries them. A
  greedy repetition tries the longest run first; an alternation tries its left branch
  first.
\<close>

fun plus_rests :: "(16 word \<Rightarrow> bool) \<Rightarrow> jsstring \<Rightarrow> jsstring list" where
  "plus_rests p [] = []"
| "plus_rests p (c # cs) = (if p c then plus_rests p cs @ [cs] else [])"

fun rx_rests :: "regex \<Rightarrow> jsstring \<Rightarrow> jsstring list" where
  "rx_rests (Lit c) s = (case s of [] \<Rightarrow> [] | x # xs \<Rightarrow> if x = c then [xs] else [])"
| "rx_rests (PlusClass p) s = plus_rests p s"
| "rx_rests (Seq a b) s = concat (map (rx_rests b) (rx_rests a s))"
| "rx_rests (Alt a b) s = rx_rests a s @ rx_rests b s"
| "rx_rests (Group a) s = rx_rests a s"

text \<open>The match found at the start of \<open>s\<close>, as what is left of \<open>s\<close> after it.\<close>

definition rx_exec_at :: "regex \<Rightarrow> jsstring \<Rightarrow> jsstring option" where
  "rx_exec_at r s = (case rx_rests r s of [] \<Rightarrow> None | rest # _ \<Rightarrow> Some rest)"

text \<open>
  The loop of a global match: find the leftmost match at or after the current index,
  collect its text, go on behind it; after an empty match the index advances by one.
  The index runs up to the length of the string, where only an empty match is possible.
\<close>

function match_global :: "regex \<Rightarrow> jsstring \<Rightarrow> jsstring list" where
  "match_global r [] = (case rx_exec_at r [] of None \<Rightarrow> [] | Some rest \<Rightarrow> [[]])"
| "match_global r (c # cs) =
     (case rx_exec_at r (c # cs) of
        None \<Rightarrow> match_global r cs
      | Some rest \<Rightarrow>
          if length rest < length (c # cs)
          then take (length (c # cs) - length rest) (c # cs) # match_global r rest
          else [] # match_global r cs)"
  by pat_completeness auto
termination
  by (relation "measure (\<lambda>(r, s). length s)") auto

text \<open>\<^verbatim>\<open>s.match(r)\<close> for a global \<^verbatim>\<open>r\<close>: \<^verbatim>\<open>null\<close> (here \<open>None\<close>) when nothing matches.\<close>

definition String_match :: "jsstring \<Rightarrow> regex \<Rightarrow> jsstring list option" where
  "String_match s r = (case match_global r s of [] \<Rightarrow> None | m # ms \<Rightarrow> Some (m # ms))"

definition toolCallRegex :: regex where
  "toolCallRegex =
     Seq (Group (Alt (Seq (PlusClass is_word) (Seq (Lit 95) (PlusClass is_word)))
                     (PlusClass is_word)))
         (Lit 40)"

definition toolCallMatches :: "jsstring \<Rightarrow> jsstring list" where
  "toolCallMatches fullResponse =
     (case String_match fullResponse toolCallRegex of None \<Rightarrow> [] | Some ms \<Rightarrow> ms)"

section \<open>Effects: console, test runtime, file system\<close>

text \<open>
  The callback writes to the console, to the log of the test runtime and to one file.
  The state these effects change is the \<open>world\<close>; a computation takes a world and
  returns the changed world with either its value or the exception it threw.
\<close>

text \<open>A thrown value, with the text \<^verbatim>\<open>`${error}`\<close> renders it as.\<close>

datatype exn = Thrown jsstring

record world =
  console :: "jsstring list"
  runtime_log :: "jsstring list"
  files :: "jsstring \<rightharpoonup> jsstring"

type_synonym 'a io = "world \<Rightarrow> (exn + 'a) \<times> world"

definition io_return :: "'a \<Rightarrow> 'a io" where
  "io_return x w = (Inr x, w)"

definition io_throw :: "exn \<Rightarrow> 'a io" where
  "io_throw e w = (Inl e, w)"

text \<open>Statement sequencing: an exception of the first statement skips the rest.\<close>

definition io_bind :: "'a io \<Rightarrow> ('a \<Rightarrow> 'b io) \<Rightarrow> 'b io" where
  "io_bind m f w = (case m w of (Inl e, w') \<Rightarrow> (Inl e, w') | (Inr x, w') \<Rightarrow> f x w')"

text \<open>\<^verbatim>\<open>try { m } catch (error) { h }\<close>.\<close>

definition io_try :: "'a io \<Rightarrow> (exn \<Rightarrow> 'a io) \<Rightarrow> 'a io" where
  "io_try m h w = (case m w of (Inl e, w') \<Rightarrow> h e w' | (Inr x, w') \<Rightarrow> (Inr x, w'))"

text \<open>\<^verbatim>\<open>xs.forEach((x, index) => f(x, index))\<close>, from index \<open>i\<close> on.\<close>

fun forEach_from :: "nat \<Rightarrow> 'a list \<Rightarrow> ('a \<Rightarrow> nat \<Rightarrow> unit io) \<Rightarrow> unit io" where
  "forEach_from i [] f = io_return ()"
| "forEach_from i (x # xs) f = io_bind (f x i) (\<lambda>_. forEach_from (Suc i) xs f)"

definition forEach :: "'a list \<Rightarrow> ('a \<Rightarrow> nat \<Rightarrow> unit io) \<Rightarrow> unit io" where
  "forEach xs f = forEach_from 0 xs f"

text \<open>
  What the callback takes from outside the repository. The service accessor either
  throws or hands out the test runtime, whose \<^verbatim>\<open>log\<close> may throw on a message. Node's
  clock, \<^verbatim>\<open>__dirname\<close>, \<^verbatim>\<open>path.join\<close> and \<^verbatim>\<open>JSON.stringify\<close> are parameters;
  \<^verbatim>\<open>fs.writeFileSync\<close> either throws or replaces the content of the file.
\<close>

type_synonym testRuntime = "jsstring \<Rightarrow> exn option"

type_synonym accessor = "exn + testRuntime"

record logData =
  timestamp :: jsstring
  responseLength :: nat
  behaviorMatchesCount :: nat
  totalBehaviors :: nat
  successFlag :: bool
  toolCalls :: "jsstring list"
  responsePreview :: jsstring
  fullResponseText :: jsstring

record env =
  Date_now_toISOString :: jsstring
  dirname :: jsstring
  path_join :: "jsstring \<Rightarrow> jsstring \<Rightarrow> jsstring"
  JSON_stringify :: "logData \<Rightarrow> jsstring"
  writeFileSync_throws :: "jsstring \<Rightarrow> jsstring \<Rightarrow> exn option"

definition console_log :: "jsstring \<Rightarrow> unit io" where
  "console_log line w = (Inr (), w\<lparr>console := console w @ [line]\<rparr>)"

definition accessor_get :: "accessor \<Rightarrow> testRuntime io" where
  "accessor_get accessor = (case accessor of Inl e \<Rightarrow> io_throw e | Inr testContext \<Rightarrow> io_return testContext)"

definition testContext_log :: "testRuntime \<Rightarrow> jsstring \<Rightarrow> unit io" where
  "testContext_log testContext message =
     (case testContext message of
        Some e \<Rightarrow> io_throw e
      | None \<Rightarrow> (\<lambda>w. (Inr (), w\<lparr>runtime_log := runtime_log w @ [message]\<rparr>)))"

definition writeFileSync :: "env \<Rightarrow> jsstring \<Rightarrow> jsstring \<Rightarrow> unit io" where
  "writeFileSync env file data =
     (case writeFileSync_throws env file data of
        Some e \<Rightarrow> io_throw e
      | None \<Rightarrow> (\<lambda>w. (Inr (), w\<lparr>files := (files w)(file \<mapsto> data)\<rparr>)))"

text \<open>The three non-ASCII characters of the log lines, as UTF-16 code units.\<close>

definition wrench :: jsstring where
  "wrench = [0xD83D, 0xDD27]"

definition check_mark :: jsstring where
  "check_mark = [0x2705]"

definition cross_mark :: jsstring where
  "cross_mark = [0x274C]"

section \<open>The validation callback\<close>

text \<open>
  Lines 41 to 49, \<^verbatim>\<open>log\<close>: write the message to the console, then to the test runtime;
  whatever the runtime throws is swallowed.
\<close>

definition log :: "accessor \<Rightarrow> jsstring \<Rightarrow> unit io" where
  "log accessor message =
     io_bind (console_log (wrench @ js '' '' @ message)) (\<lambda>_.
     io_try (io_bind (accessor_get accessor) (\<lambda>testContext. testContext_log testContext message))
            (\<lambda>error. io_return ()))"

definition behaviorNames :: "jsstring list" where
  "behaviorNames =
     [js ''dotnet build command'', js ''run_in_terminal usage'', js ''error analysis'',
      js ''file editing'', js ''retry building'']"

text \<open>\<^verbatim>\<open>`${behaviorNames[index]}`\<close>: an index outside the array reads \<^verbatim>\<open>undefined\<close>.\<close>

definition behaviorName :: "nat \<Rightarrow> jsstring" where
  "behaviorName index =
     (if index < length behaviorNames then behaviorNames ! index else js ''undefined'')"

text \<open>
  Lines 101 to 126, everything after the tool calls are extracted, as a function of the
  local variables it reads.
\<close>

definition report :: "env \<Rightarrow> accessor \<Rightarrow> jsstring \<Rightarrow> behavior list \<Rightarrow> bool \<Rightarrow> jsstring list \<Rightarrow> verdict io" where
  "report env accessor fullResponse matches = (\<lambda>success toolCallMatches.
     io_bind (log accessor (js ''[TOOL-CALLS] Found tool calls: '' @ join toolCallMatches (js '', ''))) (\<lambda>_.
     let logData = \<lparr> timestamp = Date_now_toISOString env,
                     responseLength = length fullResponse,
                     behaviorMatchesCount = length matches,
                     totalBehaviors = length expectedBehaviors,
                     successFlag = success,
                     toolCalls = toolCallMatches,
                     responsePreview = substring0 fullResponse 500,
                     fullResponseText = fullResponse \<rparr>;
         logFile = path_join env (dirname env) (js ''debug-analysis.json'')
     in
     io_bind (io_try (io_bind (writeFileSync env logFile (JSON_stringify env logData)) (\<lambda>_.
                      log accessor (js ''[FILE-OUTPUT] Analysis written to: '' @ logFile)))
                     (\<lambda>error. case error of Thrown text \<Rightarrow>
                        log accessor (js ''[FILE-OUTPUT] Failed to write log: '' @ text))) (\<lambda>_.
     io_return \<lparr> success = success,
                 errorMessage =
                   (if success then None
                    else Some (js ''Expected agent to demonstrate C# build-fix behaviors, but only ''
                               @ String_of_nat (length matches) @ js '' out of ''
                               @ String_of_nat (length expectedBehaviors)
                               @ js '' behaviors were found'')) \<rparr>)))"

text \<open>
  Lines 35 to 127, the callback given to \<^verbatim>\<open>generateScenarioTestRunner\<close>. Of its nine
  arguments the body reads \<^verbatim>\<open>accessor\<close> and \<^verbatim>\<open>fullResponse\<close>; the others are kept, with
  types of their own.
\<close>

definition callback ::
  "env \<Rightarrow> accessor \<Rightarrow> 'question \<Rightarrow> 'response \<Rightarrow> jsstring \<Rightarrow> 'turn \<Rightarrow> 'index \<Rightarrow> 'commands
     \<Rightarrow> 'confirmations \<Rightarrow> 'fileTrees \<Rightarrow> verdict io" where
  "callback env accessor question response fullResponse turn index commands confirmations fileTrees =
     io_bind (console_log (wrench @ js '' [VALIDATION-START] Processing response of length: ''
                           @ String_of_nat (length fullResponse))) (\<lambda>_.
     io_bind (console_log (wrench @ js '' [VALIDATION-DEBUG] Response preview: ''
                           @ substring0 fullResponse 200 @ js ''...'')) (\<lambda>_.
     let matches = behaviorMatches expectedBehaviors fullResponse;
         success = (length matches \<ge> 2)
     in
     io_bind (log accessor (js ''[BEHAVIOR-ANALYSIS] Found '' @ String_of_nat (length matches)
                            @ js ''/'' @ String_of_nat (length expectedBehaviors)
                            @ js '' expected behaviors'')) (\<lambda>_.
     io_bind (log accessor (js ''[BEHAVIOR-ANALYSIS] Success: '' @ String_of_bool success)) (\<lambda>_.
     io_bind (forEach expectedBehaviors (\<lambda>behavior index.
                let found = behavior fullResponse
                in log accessor (js ''[BEHAVIOR-CHECK] '' @ behaviorName index @ js '': ''
                                 @ (if found then check_mark else cross_mark)))) (\<lambda>_.
     report env accessor fullResponse matches success (toolCallMatches fullResponse))))))"

section \<open>Substring search and the effects of the callback\<close>


lemma startsWith_iff: "startsWith s n \<longleftrightarrow> (\<exists>v. s = n @ v)"
  by (induction s n rule: startsWith.induct) auto

lemma js_includes_iff: "js_includes s n \<longleftrightarrow> (\<exists>u v. s = u @ n @ v)"
proof (induction s)
  case Nil
  show ?case by (cases n) auto
next
  case (Cons x xs)
  show ?case
  proof
    assume "js_includes (x # xs) n"
    then consider "startsWith (x # xs) n" | "js_includes xs n" by auto
    then show "\<exists>u v. x # xs = u @ n @ v"
    proof cases
      case 1
      then obtain v where "x # xs = n @ v" by (auto simp: startsWith_iff)
      then have "x # xs = [] @ n @ v" by simp
      then show ?thesis by blast
    next
      case 2
      then obtain u v where "xs = u @ n @ v" using Cons.IH by blast
      then have "x # xs = (x # u) @ n @ v" by simp
      then show ?thesis by blast
    qed
  next
    assume "\<exists>u v. x # xs = u @ n @ v"
    then obtain u v where uv: "x # xs = u @ n @ v" by blast
    show "js_includes (x # xs) n"
    proof (cases u)
      case Nil
      with uv have "startsWith (x # xs) n" by (auto simp: startsWith_iff)
      then show ?thesis by simp
    next
      case (Cons y ys)
      with uv have "xs = ys @ n @ v" by simp
      then have "js_includes xs n" using Cons.IH by blast
      then show ?thesis by simp
    qed
  qed
qed

lemma js_includes_extend: "js_includes t n \<Longrightarrow> js_includes (u @ t @ v) n"
proof -
  assume "js_includes t n"
  then obtain a b where "t = a @ n @ b" by (auto simp: js_includes_iff)
  then have "u @ t @ v = (u @ a) @ n @ (b @ v)" by simp
  then show ?thesis unfolding js_includes_iff by blast
qed

lemma log_returns:
  "\<exists>w'. log accessor message w = (Inr (), w')
        \<and> console w' = console w @ [wrench @ js '' '' @ message]
        \<and> files w' = files w"
  by (cases accessor)
     (auto simp: log_def io_bind_def io_try_def console_log_def accessor_get_def
        testContext_log_def io_throw_def io_return_def split: option.splits)

lemma forEach_log_returns:
  "\<exists>w'. forEach_from i xs (\<lambda>x index. log accessor (g x index)) w = (Inr (), w') \<and> files w' = files w"
proof (induction xs arbitrary: i w)
  case Nil
  show ?case by (simp add: io_return_def)
next
  case (Cons x xs)
  obtain w1 where w1: "log accessor (g x i) w = (Inr (), w1)" "files w1 = files w"
    using log_returns by blast
  obtain w2 where "forEach_from (Suc i) xs (\<lambda>x index. log accessor (g x index)) w1 = (Inr (), w2)"
    "files w2 = files w1"
    using Cons.IH by blast
  with w1 show ?case by (simp add: io_bind_def)
qed

lemma console_log_returns:
  "console_log line w = (Inr (), w\<lparr>console := console w @ [line]\<rparr>)"
  by (simp add: console_log_def)

lemma report_returns:
  "\<exists>w'. report env accessor t matches ok tcs w =
          (Inr \<lparr> success = ok,
                 errorMessage = (if ok then None
                                 else Some (failureMessage (length matches) (length expectedBehaviors))) \<rparr>, w')"
proof -
  let ?logFile = "path_join env (dirname env) (js ''debug-analysis.json'')"
  obtain w1 where w1: "log accessor (js ''[TOOL-CALLS] Found tool calls: '' @ join tcs (js '', '')) w = (Inr (), w1)"
    using log_returns by blast
  have "\<exists>w2. io_try (io_bind (writeFileSync env ?logFile d) (\<lambda>_. log accessor m1))
                 (\<lambda>error. case error of Thrown text \<Rightarrow> log accessor (m2 @ text)) w1 = (Inr (), w2)"
    for d m1 m2
  proof (cases "writeFileSync_throws env ?logFile d")
    case None
    obtain w2 where "log accessor m1 (w1\<lparr>files := (files w1)(?logFile \<mapsto> d)\<rparr>) = (Inr (), w2)"
      using log_returns by blast
    with None show ?thesis
      by (simp add: io_try_def io_bind_def writeFileSync_def)
  next
    case (Some e)
    obtain msg where e: "e = Thrown msg" by (cases e)
    obtain w2 where "log accessor (m2 @ msg) w1 = (Inr (), w2)"
      using log_returns by blast
    with Some e show ?thesis
      by (simp add: io_try_def io_bind_def writeFileSync_def io_throw_def)
  qed
  then obtain w2 where
    "io_try (io_bind (writeFileSync env ?logFile
                        (JSON_stringify env
                           \<lparr> timestamp = Date_now_toISOString env,
                             responseLength = length t,
                             behaviorMatchesCount = length matches,
                             totalBehaviors = length expectedBehaviors,
                             successFlag = ok,
                             toolCalls = tcs,
                             responsePreview = substring0 t 500,
                             fullResponseText = t \<rparr>))
                     (\<lambda>_. log accessor (js ''[FILE-OUTPUT] Analysis written to: '' @ ?logFile)))
            (\<lambda>error. case error of Thrown text \<Rightarrow>
                        log accessor (js ''[FILE-OUTPUT] Failed to write log: '' @ text)) w1
       = (Inr (), w2)"
    by blast
  then show ?thesis
    using w1 by (simp add: report_def io_bind_def io_return_def Let_def failureMessage_def)
qed

lemma callback_report:
  "\<exists>w1. callback env accessor q r t tu i c cf ft w =
          report env accessor t (behaviorMatches expectedBehaviors t)
            (length (behaviorMatches expectedBehaviors t) \<ge> 2) (toolCallMatches t) w1
        \<and> files w1 = files w"
proof -
  let ?m = "behaviorMatches expectedBehaviors t"
  let ?w2 = "(w\<lparr>console := console w @ [wrench @ js '' [VALIDATION-START] Processing response of length: ''
                           @ String_of_nat (length t)]\<rparr>)
               \<lparr>console := console (w\<lparr>console := console w @ [wrench @ js '' [VALIDATION-START] Processing response of length: ''
                           @ String_of_nat (length t)]\<rparr>)
                  @ [wrench @ js '' [VALIDATION-DEBUG] Response preview: '' @ substring0 t 200 @ js ''...'']\<rparr>"
  have f2: "files ?w2 = files w" by simp
  obtain w3 where w3: "log accessor (js ''[BEHAVIOR-ANALYSIS] Found '' @ String_of_nat (length ?m)
                            @ js ''/'' @ String_of_nat (length expectedBehaviors)
                            @ js '' expected behaviors'') ?w2 = (Inr (), w3)" "files w3 = files ?w2"
    using log_returns by blast
  obtain w4 where w4: "log accessor (js ''[BEHAVIOR-ANALYSIS] Success: '' @ String_of_bool (length ?m \<ge> 2)) w3 = (Inr (), w4)"
    "files w4 = files w3"
    using log_returns by blast
  obtain w5 where w5: "forEach_from 0 expectedBehaviors (\<lambda>behavior index.
                log accessor (js ''[BEHAVIOR-CHECK] '' @ behaviorName index @ js '': ''
                                 @ (if behavior t then check_mark else cross_mark))) w4 = (Inr (), w5)"
    "files w5 = files w4"
    using forEach_log_returns [of 0 expectedBehaviors accessor
        "\<lambda>behavior index. js ''[BEHAVIOR-CHECK] '' @ behaviorName index @ js '': ''
                                 @ (if behavior t then check_mark else cross_mark)" w4]
    by blast
  have "callback env accessor q r t tu i c cf ft w =
          report env accessor t ?m (length ?m \<ge> 2) (toolCallMatches t) w5"
    using w3(1) w4(1) w5(1)
    by (simp add: callback_def io_bind_def console_log_returns Let_def forEach_def)
  moreover have "files w5 = files w" using w3(2) w4(2) w5(2) f2 by simp
  ultimately show ?thesis by blast
qed

lemma callback_returns:
  "\<exists>w'. callback env accessor q r t tu i c cf ft w =
          (Inr (result (evaluate t expectedBehaviors 2)), w')"
proof -
  obtain w1 where "callback env accessor q r t tu i c cf ft w =
          report env accessor t (behaviorMatches expectedBehaviors t)
            (length (behaviorMatches expectedBehaviors t) \<ge> 2) (toolCallMatches t) w1"
    using callback_report [of env accessor q r t tu i c cf ft w] by blast
  moreover obtain w' where "report env accessor t (behaviorMatches expectedBehaviors t)
            (length (behaviorMatches expectedBehaviors t) \<ge> 2) (toolCallMatches t) w1
      = (Inr \<lparr> success = (length (behaviorMatches expectedBehaviors t) \<ge> 2),
                 errorMessage = (if (length (behaviorMatches expectedBehaviors t) \<ge> 2) then None
                                 else Some (failureMessage (length (behaviorMatches expectedBehaviors t)) (length expectedBehaviors))) \<rparr>, w')"
    using report_returns by blast
  ultimately show ?thesis
    by (auto simp: evaluate_def Let_def)
qed

lemma callback_verdict:
  "fst (callback env accessor q r t tu i c cf ft w) = Inr (result (evaluate t expectedBehaviors 2))"
  using callback_returns [of env accessor q r t tu i c cf ft w] by auto

lemma length_expectedBehaviors: "length expectedBehaviors = 5"
  by (simp add: expectedBehaviors_def)

lemma report_write_fails:
  assumes "writeFileSync_throws env (path_join env (dirname env) (js ''debug-analysis.json''))
             (JSON_stringify env
                \<lparr> timestamp = Date_now_toISOString env,
                  responseLength = length t,
                  behaviorMatchesCount = length matches,
                  totalBehaviors = length expectedBehaviors,
                  successFlag = ok,
                  toolCalls = tcs,
                  responsePreview = substring0 t 500,
                  fullResponseText = t \<rparr>)
             = Some (Thrown e)"
  shows "\<exists>w'. report env accessor t matches ok tcs w =
               (Inr \<lparr> success = ok,
                      errorMessage = (if ok then None
                                      else Some (failureMessage (length matches) (length expectedBehaviors))) \<rparr>, w')
             \<and> last (console w') = wrench @ js '' '' @ js ''[FILE-OUTPUT] Failed to write log: '' @ e
             \<and> files w' = files w"
proof -
  obtain w1 where w1: "log accessor (js ''[TOOL-CALLS] Found tool calls: '' @ join tcs (js '', '')) w = (Inr (), w1)"
    "files w1 = files w"
    using log_returns by blast
  obtain w2 where w2: "log accessor (js ''[FILE-OUTPUT] Failed to write log: '' @ e) w1 = (Inr (), w2)"
    "console w2 = console w1 @ [wrench @ js '' '' @ js ''[FILE-OUTPUT] Failed to write log: '' @ e]"
    "files w2 = files w1"
    using log_returns by blast
  have "report env accessor t matches ok tcs w =
               (Inr \<lparr> success = ok,
                      errorMessage = (if ok then None
                                      else Some (failureMessage (length matches) (length expectedBehaviors))) \<rparr>, w2)"
    using assms w1(1) w2(1)
    by (simp add: report_def io_bind_def io_try_def io_return_def io_throw_def writeFileSync_def
        Let_def failureMessage_def)
  moreover have "last (console w2) = wrench @ js '' '' @ js ''[FILE-OUTPUT] Failed to write log: '' @ e"
    using w2(2) by simp
  moreover have "files w2 = files w" using w1(2) w2(3) by simp
  ultimately show ?thesis by blast
qed

section \<open>The score\<close>

text \<open>
  C1. For every transcript, the number of matched behaviors is the number of the five
  checks of \<open>expectedBehaviors\<close> that are true on the transcript, the callback returns, and
  the \<open>success\<close> it returns is true exactly when at least 2 checks matched.
\<close>

theorem C1_matchedCount_and_success:
  "length expectedBehaviors = 5
   \<and> matchedCount (evaluate t expectedBehaviors 2) = card {i. i < 5 \<and> (expectedBehaviors ! i) t}
   \<and> length (behaviorMatches expectedBehaviors t) = card {i. i < 5 \<and> (expectedBehaviors ! i) t}
   \<and> (\<exists>v w'. callback env accessor q r t tu i c cf ft w = (Inr v, w')
              \<and> success v = (card {i. i < 5 \<and> (expectedBehaviors ! i) t} \<ge> 2))"
proof -
  let ?n = "card {i. i < 5 \<and> (expectedBehaviors ! i) t}"
  have len: "length (behaviorMatches expectedBehaviors t) = ?n"
    unfolding behaviorMatches_def length_filter_conv_card length_expectedBehaviors ..
  have m: "matchedCount (evaluate t expectedBehaviors 2) = ?n"
    using len by (simp add: evaluate_def Let_def)
  have s: "success (result (evaluate t expectedBehaviors 2)) = (?n \<ge> 2)"
    using len by (simp add: evaluate_def Let_def)
  obtain w' where "callback env accessor q r t tu i c cf ft w
      = (Inr (result (evaluate t expectedBehaviors 2)), w')"
    using callback_returns [of env accessor q r t tu i c cf ft w] by blast
  with s have "\<exists>v w'. callback env accessor q r t tu i c cf ft w = (Inr v, w') \<and> success v = (?n \<ge> 2)"
    by blast
  with len m show ?thesis
    by (simp add: length_expectedBehaviors)
qed

text \<open>
  C2. On the transcript "Running dotnet build now. error CS1002 found." the first check
  (build attempted) and the third (error analysis) are true and the other three are
  false, so 2 behaviors match, and the callback returns success with no error message.
\<close>

theorem C2_scenario_3:
  "map (\<lambda>behavior. behavior (js ''Running dotnet build now. error CS1002 found.'')) expectedBehaviors
     = [True, False, True, False, False]
   \<and> matchedCount (evaluate (js ''Running dotnet build now. error CS1002 found.'') expectedBehaviors 2) = 2
   \<and> fst (callback env accessor q r (js ''Running dotnet build now. error CS1002 found.'')
             tu i c cf ft w)
       = Inr \<lparr> success = True, errorMessage = None \<rparr>"
proof -
  have checks: "map (\<lambda>behavior. behavior (js ''Running dotnet build now. error CS1002 found.''))
                  expectedBehaviors = [True, False, True, False, False]"
    by code_simp
  have ev: "evaluate (js ''Running dotnet build now. error CS1002 found.'') expectedBehaviors 2
              = \<lparr> matchedCount = 2, totalCount = 5,
                  result = \<lparr> success = True, errorMessage = None \<rparr> \<rparr>"
    by code_simp
  show ?thesis
    using checks by (simp add: callback_verdict ev)
qed

text \<open>
  C3. For every transcript the callback returns a verdict whose \<open>errorMessage\<close> is absent
  when \<open>success\<close> is true. When \<open>success\<close> is false, fewer than 2 behaviors matched and
  the message is the fixed text with the number of matched behaviors and the number of
  checks in decimal: "... but only 0 out of 5 behaviors were found" when none matched,
  "... but only 1 out of 5 behaviors were found" when one did. The message is the same
  function of the two counts on every transcript.
\<close>

theorem C3_errorMessage:
  "\<exists>x w'. callback env accessor q r t tu i c cf ft w = (Inr x, w')
     \<and> errorMessage x =
         (if success x then None
          else Some (js ''Expected agent to demonstrate C# build-fix behaviors, but only ''
                     @ String_of_nat (matchedCount (evaluate t expectedBehaviors 2))
                     @ js '' out of ''
                     @ String_of_nat (totalCount (evaluate t expectedBehaviors 2))
                     @ js '' behaviors were found''))
     \<and> errorMessage x =
         (if success x then None
          else if length (behaviorMatches expectedBehaviors t) = 0
          then Some (js ''Expected agent to demonstrate C# build-fix behaviors, but only 0 out of 5 behaviors were found'')
          else Some (js ''Expected agent to demonstrate C# build-fix behaviors, but only 1 out of 5 behaviors were found''))
     \<and> success x = (length (behaviorMatches expectedBehaviors t) \<ge> 2)
     \<and> String_of_nat 0 = js ''0'' \<and> String_of_nat 1 = js ''1'' \<and> String_of_nat 5 = js ''5''"
proof -
  let ?n = "length (behaviorMatches expectedBehaviors t)"
  let ?x = "result (evaluate t expectedBehaviors 2)"
  have d0: "String_of_nat 0 = js ''0''" by code_simp
  have d1: "String_of_nat 1 = js ''1''" by code_simp
  have d5: "String_of_nat 5 = js ''5''" by code_simp
  have m0: "failureMessage 0 5 =
      js ''Expected agent to demonstrate C# build-fix behaviors, but only 0 out of 5 behaviors were found''"
    by code_simp
  have m1: "failureMessage 1 5 =
      js ''Expected agent to demonstrate C# build-fix behaviors, but only 1 out of 5 behaviors were found''"
    by code_simp
  obtain w' where cb: "callback env accessor q r t tu i c cf ft w = (Inr ?x, w')"
    using callback_returns [of env accessor q r t tu i c cf ft w] by blast
  have s: "success ?x = (?n \<ge> 2)"
    by (simp add: evaluate_def Let_def)
  have general: "errorMessage ?x =
         (if success ?x then None
          else Some (js ''Expected agent to demonstrate C# build-fix behaviors, but only ''
                     @ String_of_nat (matchedCount (evaluate t expectedBehaviors 2))
                     @ js '' out of ''
                     @ String_of_nat (totalCount (evaluate t expectedBehaviors 2))
                     @ js '' behaviors were found''))"
    by (simp add: evaluate_def Let_def failureMessage_def)
  have e: "errorMessage ?x = (if success ?x then None else Some (failureMessage ?n 5))"
    by (simp add: evaluate_def Let_def length_expectedBehaviors)
  have literal: "errorMessage ?x =
         (if success ?x then None
          else if ?n = 0
          then Some (js ''Expected agent to demonstrate C# build-fix behaviors, but only 0 out of 5 behaviors were found'')
          else Some (js ''Expected agent to demonstrate C# build-fix behaviors, but only 1 out of 5 behaviors were found''))"
  proof (cases "success ?x")
    case True
    then show ?thesis using e by simp
  next
    case False
    then have "\<not> ?n \<ge> 2" using s by simp
    then have "?n = 0 \<or> ?n = 1" by arith
    then show ?thesis
    proof
      assume "?n = 0"
      then show ?thesis using False e m0 by simp
    next
      assume "?n = 1"
      then show ?thesis using False e m1 by simp
    qed
  qed
  from cb general literal s d0 d1 d5 show ?thesis by blast
qed

text \<open>
  C4. The number of matched behaviors does not depend on the order of the checklist:
  two checklists that are permutations of each other give the same \<open>matchedCount\<close> on
  every transcript and threshold.
\<close>

theorem C4_matchedCount_permutation:
  "mset C' = mset C \<Longrightarrow> matchedCount (evaluate t C k) = matchedCount (evaluate t C' k)"
proof -
  assume p: "mset C' = mset C"
  have "length (filter (\<lambda>behavior. behavior t) C) = size (filter_mset (\<lambda>behavior. behavior t) (mset C))"
    by (metis mset_filter size_mset)
  also have "\<dots> = size (filter_mset (\<lambda>behavior. behavior t) (mset C'))"
    using p by simp
  also have "\<dots> = length (filter (\<lambda>behavior. behavior t) C')"
    by (metis mset_filter size_mset)
  finally show ?thesis
    by (simp add: evaluate_def Let_def behaviorMatches_def)
qed

theorem C4_matchedCount_permutation_witness:
  "mset (rev expectedBehaviors) = mset expectedBehaviors
   \<and> matchedCount (evaluate (js ''Running dotnet build now. error CS1002 found.'') expectedBehaviors 2)
     = matchedCount (evaluate (js ''Running dotnet build now. error CS1002 found.'') (rev expectedBehaviors) 2)"
proof -
  have h: "mset (rev expectedBehaviors) = mset expectedBehaviors" by simp
  show ?thesis
    using h C4_matchedCount_permutation [OF h,
        of "js ''Running dotnet build now. error CS1002 found.''" 2]
    by simp
qed

text \<open>
  C5. For a fixed transcript and checklist, success at a threshold implies success at
  every smaller threshold.
\<close>

theorem C5_success_antitone:
  "k1 \<le> k2 \<Longrightarrow> success (result (evaluate t C k2)) \<Longrightarrow> success (result (evaluate t C k1))"
  by (simp add: evaluate_def Let_def)

theorem C5_success_antitone_witness:
  "(1::int) \<le> 2
   \<and> success (result (evaluate (js ''Running dotnet build now. error CS1002 found.'') expectedBehaviors 2))
   \<and> success (result (evaluate (js ''Running dotnet build now. error CS1002 found.'') expectedBehaviors 1))"
proof -
  have h1: "(1::int) \<le> 2" by simp
  have h2: "success (result (evaluate (js ''Running dotnet build now. error CS1002 found.'')
                               expectedBehaviors 2))"
    by code_simp
  show ?thesis
    using h1 h2 C5_success_antitone [OF h1 h2] by simp
qed

text \<open>
  C6. The verdict the callback returns is determined by \<open>fullResponse\<close>: two calls on the
  same transcript return the same verdict, whatever the accessor, the question, the
  response, the turn, the index, the commands, the confirmations, the file trees, the
  environment and the state of the world are.
\<close>

theorem C6_verdict_depends_only_on_fullResponse:
  "fst (callback env accessor q r t tu i c cf ft w)
     = fst (callback env' accessor' q' r' t tu' i' c' cf' ft' w')
   \<and> (\<exists>v. fst (callback env accessor q r t tu i c cf ft w) = Inr v)"
  by (simp add: callback_verdict)

section \<open>Diagnostics do not change the verdict\<close>

text \<open>
  C7. When writing the analysis file throws (for the path and the data the callback
  writes), the callback still returns a verdict (the exception does not reach the
  caller), the last console line reports the failure with the text of the exception, no
  file is changed, and the verdict is the one returned when the write succeeds.
\<close>

theorem C7_write_failure_is_logged_and_discarded:
  assumes "writeFileSync_throws env (path_join env (dirname env) (js ''debug-analysis.json''))
             (JSON_stringify env
                \<lparr> timestamp = Date_now_toISOString env,
                  responseLength = length t,
                  behaviorMatchesCount = length (behaviorMatches expectedBehaviors t),
                  totalBehaviors = length expectedBehaviors,
                  successFlag = (length (behaviorMatches expectedBehaviors t) \<ge> 2),
                  toolCalls = toolCallMatches t,
                  responsePreview = substring0 t 500,
                  fullResponseText = t \<rparr>)
             = Some (Thrown e)"
  shows "\<exists>x w'. callback env accessor q r t tu i c cf ft w = (Inr x, w')
           \<and> last (console w') = wrench @ js '' '' @ js ''[FILE-OUTPUT] Failed to write log: '' @ e
           \<and> files w' = files w
           \<and> fst (callback (env\<lparr>writeFileSync_throws := \<lambda>file data. None\<rparr>)
                     accessor q r t tu i c cf ft w) = Inr x"
proof -
  let ?m = "behaviorMatches expectedBehaviors t"
  obtain w1 where w1: "callback env accessor q r t tu i c cf ft w =
          report env accessor t ?m (length ?m \<ge> 2) (toolCallMatches t) w1"
      "files w1 = files w"
    using callback_report [of env accessor q r t tu i c cf ft w] by blast
  obtain w' where w': "report env accessor t ?m (length ?m \<ge> 2) (toolCallMatches t) w1 =
               (Inr \<lparr> success = (length ?m \<ge> 2),
                      errorMessage = (if length ?m \<ge> 2 then None
                                      else Some (failureMessage (length ?m) (length expectedBehaviors))) \<rparr>, w')"
      "last (console w') = wrench @ js '' '' @ js ''[FILE-OUTPUT] Failed to write log: '' @ e"
      "files w' = files w1"
    using report_write_fails [OF assms, of accessor w1]
    by blast
  have x: "\<lparr> success = (length ?m \<ge> 2),
             errorMessage = (if length ?m \<ge> 2 then None
                             else Some (failureMessage (length ?m) (length expectedBehaviors))) \<rparr>
           = result (evaluate t expectedBehaviors 2)"
    by (simp add: evaluate_def Let_def)
  have "callback env accessor q r t tu i c cf ft w = (Inr (result (evaluate t expectedBehaviors 2)), w')"
    using w1(1) w'(1) x by simp
  moreover have "files w' = files w" using w1(2) w'(3) by simp
  ultimately show ?thesis
    using w'(2) by (simp add: callback_verdict)
qed

theorem C7_write_failure_is_logged_and_discarded_witness:
  "writeFileSync_throws
      \<lparr> Date_now_toISOString = js ''2025-01-01T00:00:00.000Z'', dirname = js ''/repo'',
        path_join = (\<lambda>a b. a @ js ''/'' @ b), JSON_stringify = fullResponseText,
        writeFileSync_throws = (\<lambda>file data. if data = js ''Looking at the file.''
                                               then Some (Thrown (js ''ENOSPC'')) else None) \<rparr>
      (js ''/repo/debug-analysis.json'') (js ''Looking at the file.'')
     = Some (Thrown (js ''ENOSPC''))
   \<and> writeFileSync_throws
      \<lparr> Date_now_toISOString = js ''2025-01-01T00:00:00.000Z'', dirname = js ''/repo'',
        path_join = (\<lambda>a b. a @ js ''/'' @ b), JSON_stringify = fullResponseText,
        writeFileSync_throws = (\<lambda>file data. if data = js ''Looking at the file.''
                                               then Some (Thrown (js ''ENOSPC'')) else None) \<rparr>
      (js ''/repo/debug-analysis.json'') (js ''other data'')
     = None
   \<and> (\<exists>x w'. callback
        \<lparr> Date_now_toISOString = js ''2025-01-01T00:00:00.000Z'', dirname = js ''/repo'',
          path_join = (\<lambda>a b. a @ js ''/'' @ b), JSON_stringify = fullResponseText,
          writeFileSync_throws = (\<lambda>file data. if data = js ''Looking at the file.''
                                                 then Some (Thrown (js ''ENOSPC'')) else None) \<rparr>
        (Inl (Thrown [])) () () (js ''Looking at the file.'') () () () () ()
        \<lparr> console = [], runtime_log = [], files = Map.empty \<rparr> = (Inr x, w')
      \<and> last (console w') = wrench @ js '' '' @ js ''[FILE-OUTPUT] Failed to write log: '' @ js ''ENOSPC''
      \<and> files w' = Map.empty
      \<and> fst (callback
        \<lparr> Date_now_toISOString = js ''2025-01-01T00:00:00.000Z'', dirname = js ''/repo'',
          path_join = (\<lambda>a b. a @ js ''/'' @ b), JSON_stringify = fullResponseText,
          writeFileSync_throws = (\<lambda>file data. None) \<rparr>
        (Inl (Thrown [])) () () (js ''Looking at the file.'') () () () () ()
        \<lparr> console = [], runtime_log = [], files = Map.empty \<rparr>) = Inr x)"
proof -
  let ?env = "\<lparr> Date_now_toISOString = js ''2025-01-01T00:00:00.000Z'', dirname = js ''/repo'',
                path_join = (\<lambda>a b. a @ js ''/'' @ b), JSON_stringify = fullResponseText,
                writeFileSync_throws = (\<lambda>file data. if data = js ''Looking at the file.''
                                                       then Some (Thrown (js ''ENOSPC'')) else None) \<rparr>"
  let ?t = "js ''Looking at the file.''"
  have h: "writeFileSync_throws ?env (path_join ?env (dirname ?env) (js ''debug-analysis.json''))
             (JSON_stringify ?env
                \<lparr> timestamp = Date_now_toISOString ?env,
                  responseLength = length ?t,
                  behaviorMatchesCount = length (behaviorMatches expectedBehaviors ?t),
                  totalBehaviors = length expectedBehaviors,
                  successFlag = (length (behaviorMatches expectedBehaviors ?t) \<ge> 2),
                  toolCalls = toolCallMatches ?t,
                  responsePreview = substring0 ?t 500,
                  fullResponseText = ?t \<rparr>)
             = Some (Thrown (js ''ENOSPC''))"
    by simp
  have other: "js ''other data'' \<noteq> js ''Looking at the file.''"
    by (simp add: js_def)
  show ?thesis
    using other C7_write_failure_is_logged_and_discarded [OF h, of "Inl (Thrown [])" "()" "()"
        "()" "()" "()" "()" "()"
        "\<lparr> console = [], runtime_log = [], files = Map.empty \<rparr>"]
    by simp
qed

text \<open>
  C8. The callback returns a verdict on every transcript, the empty one included, and
  never throws. A transcript that contains none of the twelve substrings the checks look
  for matches no behavior, and the verdict is then a failure that reports 0 of 5.
\<close>

theorem C8_total:
  "(\<exists>v w'. callback env accessor q r t tu i c cf ft w = (Inr v, w'))
   \<and> behaviorMatches expectedBehaviors [] = []
   \<and> ((\<forall>n \<in> set [js ''dotnet build'', js ''building'', js ''compile'', js ''run_in_terminal'',
                    js ''terminal'', js ''error'', js ''CS'', js ''build'',
                    js ''replace_string_in_file'', js ''edit'', js ''fix'', js ''again''].
          \<not> js_includes t n)
        \<longrightarrow> behaviorMatches expectedBehaviors t = []
            \<and> fst (callback env accessor q r t tu i c cf ft w)
                = Inr \<lparr> success = False, errorMessage = Some (failureMessage 0 5) \<rparr>)"
proof -
  have a: "\<exists>v w'. callback env accessor q r t tu i c cf ft w = (Inr v, w')"
    using callback_returns [of env accessor q r t tu i c cf ft w] by blast
  have b: "behaviorMatches expectedBehaviors [] = []"
    by (simp add: behaviorMatches_def expectedBehaviors_def js_def)
  have c: "behaviorMatches expectedBehaviors t = []
            \<and> fst (callback env accessor q r t tu i c cf ft w)
                = Inr \<lparr> success = False, errorMessage = Some (failureMessage 0 5) \<rparr>"
    if "\<forall>n \<in> set [js ''dotnet build'', js ''building'', js ''compile'', js ''run_in_terminal'',
                    js ''terminal'', js ''error'', js ''CS'', js ''build'',
                    js ''replace_string_in_file'', js ''edit'', js ''fix'', js ''again''].
          \<not> js_includes t n"
  proof -
    have none: "behaviorMatches expectedBehaviors t = []"
      using that by (simp add: behaviorMatches_def expectedBehaviors_def)
    then show ?thesis
      by (simp add: callback_verdict evaluate_def Let_def length_expectedBehaviors)
  qed
  from a b c show ?thesis by blast
qed

theorem C8_total_witness:
  "\<not> js_includes (js ''Looking at the file.'') (js ''dotnet build'')
   \<and> \<not> js_includes (js ''Looking at the file.'') (js ''building'')
   \<and> \<not> js_includes (js ''Looking at the file.'') (js ''compile'')
   \<and> \<not> js_includes (js ''Looking at the file.'') (js ''run_in_terminal'')
   \<and> \<not> js_includes (js ''Looking at the file.'') (js ''terminal'')
   \<and> \<not> js_includes (js ''Looking at the file.'') (js ''error'')
   \<and> \<not> js_includes (js ''Looking at the file.'') (js ''CS'')
   \<and> \<not> js_includes (js ''Looking at the file.'') (js ''build'')
   \<and> \<not> js_includes (js ''Looking at the file.'') (js ''replace_string_in_file'')
   \<and> \<not> js_includes (js ''Looking at the file.'') (js ''edit'')
   \<and> \<not> js_includes (js ''Looking at the file.'') (js ''fix'')
   \<and> \<not> js_includes (js ''Looking at the file.'') (js ''again'')
   \<and> behaviorMatches expectedBehaviors (js ''Looking at the file.'') = []
   \<and> fst (callback
        \<lparr> Date_now_toISOString = js ''2025-01-01T00:00:00.000Z'', dirname = js ''/repo'',
          path_join = (\<lambda>a b. a @ js ''/'' @ b), JSON_stringify = fullResponseText,
          writeFileSync_throws = (\<lambda>file data. None) \<rparr>
        (Inl (Thrown [])) () () (js ''Looking at the file.'') () () () () ()
        \<lparr> console = [], runtime_log = [], files = Map.empty \<rparr>)
      = Inr \<lparr> success = False, errorMessage = Some (failureMessage 0 5) \<rparr>"
proof -
  have h: "\<not> js_includes (js ''Looking at the file.'') (js ''dotnet build'')
   \<and> \<not> js_includes (js ''Looking at the file.'') (js ''building'')
   \<and> \<not> js_includes (js ''Looking at the file.'') (js ''compile'')
   \<and> \<not> js_includes (js ''Looking at the file.'') (js ''run_in_terminal'')
   \<and> \<not> js_includes (js ''Looking at the file.'') (js ''terminal'')
   \<and> \<not> js_includes (js ''Looking at the file.'') (js ''error'')
   \<and> \<not> js_includes (js ''Looking at the file.'') (js ''CS'')
   \<and> \<not> js_includes (js ''Looking at the file.'') (js ''build'')
   \<and> \<not> js_includes (js ''Looking at the file.'') (js ''replace_string_in_file'')
   \<and> \<not> js_includes (js ''Looking at the file.'') (js ''edit'')
   \<and> \<not> js_includes (js ''Looking at the file.'') (js ''fix'')
   \<and> \<not> js_includes (js ''Looking at the file.'') (js ''again'')"
    by code_simp
  show ?thesis
    using h C8_total [of
        "\<lparr> Date_now_toISOString = js ''2025-01-01T00:00:00.000Z'', dirname = js ''/repo'',
          path_join = (\<lambda>a b. a @ js ''/'' @ b), JSON_stringify = fullResponseText,
          writeFileSync_throws = (\<lambda>file data. None) \<rparr>"
        "Inl (Thrown [])" "()" "()" "js ''Looking at the file.''" "()" "()" "()" "()" "()"
        "\<lparr> console = [], runtime_log = [], files = Map.empty \<rparr>"]
    by simp
qed

text \<open>
  C9. On "run_in_terminal(cmd) then replace_string_in_file(a,b)" the tool-call extraction
  yields "run_in_terminal(" and "replace_string_in_file(", in this order and nothing
  else. The verdict returned by the rest of the callback is the same whatever list of
  tool calls it is given.
\<close>

theorem C9_tool_call_extraction:
  "toolCallMatches (js ''run_in_terminal(cmd) then replace_string_in_file(a,b)'')
     = [js ''run_in_terminal('', js ''replace_string_in_file('']
   \<and> fst (report env accessor t matches ok calls w) = fst (report env accessor t matches ok calls' w)
   \<and> fst (callback env accessor q r (js ''run_in_terminal(cmd) then replace_string_in_file(a,b)'')
             tu i c cf ft w)
       = fst (report env accessor (js ''run_in_terminal(cmd) then replace_string_in_file(a,b)'')
                (behaviorMatches expectedBehaviors
                   (js ''run_in_terminal(cmd) then replace_string_in_file(a,b)''))
                (length (behaviorMatches expectedBehaviors
                   (js ''run_in_terminal(cmd) then replace_string_in_file(a,b)'')) \<ge> 2)
                calls w)"
proof -
  let ?t = "js ''run_in_terminal(cmd) then replace_string_in_file(a,b)''"
  let ?m = "behaviorMatches expectedBehaviors ?t"
  have extraction: "toolCallMatches ?t = [js ''run_in_terminal('', js ''replace_string_in_file('']"
    by code_simp
  have verdict_of_report: "fst (report env accessor s ms b cs w0) =
          Inr \<lparr> success = b,
                errorMessage = (if b then None
                                else Some (failureMessage (length ms) (length expectedBehaviors))) \<rparr>"
    for s ms b cs w0
    using report_returns [of env accessor s ms b cs w0] by auto
  have same: "fst (report env accessor t matches ok calls w) = fst (report env accessor t matches ok calls' w)"
    by (simp add: verdict_of_report)
  have "fst (callback env accessor q r ?t tu i c cf ft w) = Inr (result (evaluate ?t expectedBehaviors 2))"
    by (rule callback_verdict)
  also have "\<dots> = fst (report env accessor ?t ?m (length ?m \<ge> 2) calls w)"
    by (simp add: verdict_of_report evaluate_def Let_def)
  finally show ?thesis
    using extraction same by simp
qed

section \<open>Extending the transcript\<close>

text \<open>
  C10. Each of the five checks that is true on a transcript \<open>t\<close> is true on \<open>u @ t @ v\<close>
  for all strings \<open>u\<close> and \<open>v\<close>. So the number of matched behaviors of \<open>u @ t @ v\<close> is at
  least that of \<open>t\<close>, and when the callback returns success on \<open>t\<close> it returns success on
  \<open>u @ t @ v\<close>.
\<close>

theorem C10_checks_monotone:
  "(\<forall>behavior \<in> set expectedBehaviors. behavior t \<longrightarrow> behavior (u @ t @ v))
   \<and> length (behaviorMatches expectedBehaviors t) \<le> length (behaviorMatches expectedBehaviors (u @ t @ v))
   \<and> matchedCount (evaluate t expectedBehaviors k) \<le> matchedCount (evaluate (u @ t @ v) expectedBehaviors k)
   \<and> (success (result (evaluate t expectedBehaviors k))
        \<longrightarrow> success (result (evaluate (u @ t @ v) expectedBehaviors k)))
   \<and> (\<forall>x. fst (callback env accessor q r t tu i c cf ft w) = Inr x \<and> success x
        \<longrightarrow> (\<exists>y. fst (callback env' accessor' q' r' (u @ t @ v) tu' i' c' cf' ft' w') = Inr y
                  \<and> success y))"
proof -
  have mono: "\<forall>behavior \<in> set expectedBehaviors. behavior t \<longrightarrow> behavior (u @ t @ v)"
    by (auto simp: expectedBehaviors_def intro: js_includes_extend)
  have filter_mono: "length (filter P xs) \<le> length (filter Q xs)"
    if "\<forall>x \<in> set xs. P x \<longrightarrow> Q x" for P Q :: "behavior \<Rightarrow> bool" and xs
    using that by (induction xs) auto
  have len: "length (behaviorMatches expectedBehaviors t)
               \<le> length (behaviorMatches expectedBehaviors (u @ t @ v))"
    unfolding behaviorMatches_def using mono by (intro filter_mono) simp
  have cnt: "matchedCount (evaluate t expectedBehaviors k)
               \<le> matchedCount (evaluate (u @ t @ v) expectedBehaviors k)"
    using len by (simp add: evaluate_def Let_def)
  have suc: "success (result (evaluate (u @ t @ v) expectedBehaviors k0))"
    if "success (result (evaluate t expectedBehaviors k0))" for k0
    using that len by (simp add: evaluate_def Let_def)
  have cb: "\<forall>x. fst (callback env accessor q r t tu i c cf ft w) = Inr x \<and> success x
        \<longrightarrow> (\<exists>y. fst (callback env' accessor' q' r' (u @ t @ v) tu' i' c' cf' ft' w') = Inr y
                  \<and> success y)"
    using suc [of 2] by (auto simp: callback_verdict)
  from mono len cnt suc [of k] cb show ?thesis by blast
qed

theorem C10_checks_monotone_witness:
  "(expectedBehaviors ! 0) (js ''Running dotnet build now. error CS1002 found.'')
   \<and> (expectedBehaviors ! 0)
        (js ''ok. '' @ js ''Running dotnet build now. error CS1002 found.'' @ js '' Let me fix it.'')
   \<and> matchedCount (evaluate (js ''Running dotnet build now. error CS1002 found.'') expectedBehaviors 2) = 2
   \<and> matchedCount (evaluate (js ''ok. '' @ js ''Running dotnet build now. error CS1002 found.''
                                @ js '' Let me fix it.'') expectedBehaviors 2) = 3
   \<and> success (result (evaluate (js ''Running dotnet build now. error CS1002 found.'') expectedBehaviors 2))
   \<and> success (result (evaluate (js ''ok. '' @ js ''Running dotnet build now. error CS1002 found.''
                                   @ js '' Let me fix it.'') expectedBehaviors 2))
   \<and> (\<exists>x. fst (callback
              \<lparr> Date_now_toISOString = js ''2025-01-01T00:00:00.000Z'', dirname = js ''/repo'',
                path_join = (\<lambda>a b. a @ js ''/'' @ b), JSON_stringify = fullResponseText,
                writeFileSync_throws = (\<lambda>file data. None) \<rparr>
              (Inl (Thrown [])) () () (js ''Running dotnet build now. error CS1002 found.'')
              () () () () () \<lparr> console = [], runtime_log = [], files = Map.empty \<rparr>) = Inr x
          \<and> success x)
   \<and> (\<exists>y. fst (callback
              \<lparr> Date_now_toISOString = js ''2025-01-01T00:00:00.000Z'', dirname = js ''/repo'',
                path_join = (\<lambda>a b. a @ js ''/'' @ b), JSON_stringify = fullResponseText,
                writeFileSync_throws = (\<lambda>file data. None) \<rparr>
              (Inl (Thrown [])) () ()
              (js ''ok. '' @ js ''Running dotnet build now. error CS1002 found.'' @ js '' Let me fix it.'')
              () () () () () \<lparr> console = [], runtime_log = [], files = Map.empty \<rparr>) = Inr y
          \<and> success y)"
proof -
  let ?t = "js ''Running dotnet build now. error CS1002 found.''"
  let ?u = "js ''ok. ''"
  let ?v = "js '' Let me fix it.''"
  let ?env = "\<lparr> Date_now_toISOString = js ''2025-01-01T00:00:00.000Z'', dirname = js ''/repo'',
                path_join = (\<lambda>a b. a @ js ''/'' @ b), JSON_stringify = fullResponseText,
                writeFileSync_throws = (\<lambda>file data. None) \<rparr>"
  let ?w = "\<lparr> console = [], runtime_log = [], files = Map.empty \<rparr>"
  note inst = C10_checks_monotone [of ?t ?u ?v 2 ?env "Inl (Thrown [])" "()" "()" "()" "()" "()" "()" "()" ?w
      ?env "Inl (Thrown [])" "()" "()" "()" "()" "()" "()" "()" ?w]
  have h0: "expectedBehaviors ! 0 \<in> set expectedBehaviors"
    by (simp add: expectedBehaviors_def)
  have h1: "(expectedBehaviors ! 0) ?t"
    by code_simp
  have ev: "evaluate ?t expectedBehaviors 2
              = \<lparr> matchedCount = 2, totalCount = 5,
                  result = \<lparr> success = True, errorMessage = None \<rparr> \<rparr>"
    by code_simp
  have c2: "matchedCount (evaluate (?u @ ?t @ ?v) expectedBehaviors 2) = 3"
    by code_simp
  have h3: "fst (callback ?env (Inl (Thrown [])) () () ?t () () () () () ?w)
              = Inr \<lparr> success = True, errorMessage = None \<rparr>
            \<and> success \<lparr> success = True, errorMessage = None \<rparr>"
    by (simp add: callback_verdict ev)
  from inst h0 h1 have g1: "(expectedBehaviors ! 0) (?u @ ?t @ ?v)"
    by blast
  from inst ev have g2: "success (result (evaluate (?u @ ?t @ ?v) expectedBehaviors 2))"
    by simp
  from inst h3 have g3: "\<exists>y. fst (callback ?env (Inl (Thrown [])) () () (?u @ ?t @ ?v) () () () () () ?w) = Inr y
                     \<and> success y"
    by blast
  from h3 have g0: "\<exists>x. fst (callback ?env (Inl (Thrown [])) () () ?t () () () () () ?w) = Inr x \<and> success x"
    by blast
  from h1 g1 ev c2 g2 g0 g3 show ?thesis
    by simp
qed

end
